theory Spec2Isabelle
  imports Complex_Main
begin

section \<open>The eigenvalue bridge \<open>getEigenValues\<close>\<close>

text \<open>
  The repository is one function, \<^verbatim>\<open>getEigenValues\<close> in
  \<^verbatim>\<open>src/2013-01-18-gsl-for-eigenvalues.cpp\<close> (lines 28 to 46). It stages an R
  numeric matrix into a GSL matrix, allocates a GSL vector and a workspace, calls
  \<^verbatim>\<open>gsl_eigen_symm\<close>, frees the workspace, copies the vector into a new R vector,
  frees the two GSL buffers and returns the R vector.

  Every statement of the function is a call into Rcpp, RcppGSL or the GSL. None of these
  is code of the repository, so the memory primitives are modelled on an explicit store
  and the numerical routine is a parameter of the model. The GSL is a C library (the
  includes of lines 24 and 25, "C language pointers" at line 16): its functions report a
  failure by the status they return, they do not raise.
\<close>

subsection \<open>Memory\<close>

text \<open>
  One store holds the objects of the calling environment (R objects) and the
  library-native objects (GSL objects), each under an address. The element type \<open>'a\<close>
  stands for \<^verbatim>\<open>double\<close>: the bridge only copies elements. A matrix is kept as its
  two dimensions and its rows; the layouts (column-major in R, row-major in the GSL) are
  not modelled.
\<close>

type_synonym addr = nat

datatype 'a obj =
    NumericMatrix nat nat "'a list list"
  | NumericVector "'a list"
  | gsl_matrix nat nat "'a list list"
  | gsl_vector "'a list"
  | gsl_eigen_symm_workspace nat

text \<open>The calls into the libraries, in the order they happen (a ghost trace).\<close>

datatype event =
    MatrixImport addr addr
  | VectorAlloc addr nat
  | SymmAlloc addr nat
  | EigenSymm addr addr addr
  | SymmFree addr
  | Wrap addr addr
  | MatrixFree addr
  | VectorFree addr

text \<open>
  \<open>uninit\<close> is what a freshly allocated, not initialised buffer happens to hold
  (\<^verbatim>\<open>gsl_vector_alloc\<close> does not clear its block).
\<close>

record 'a memory =
  cells :: "(addr \<times> 'a obj) list"
  uninit :: "nat \<Rightarrow> 'a"
  trace :: "event list"

text \<open>
  A failure that leaves the function: the conversion error of the RcppGSL constructor,
  or the use of a handle that names no live object of the expected kind (undefined
  behaviour in C++).
\<close>

datatype failure = not_compatible | Fault

fun fresh :: "(addr \<times> 'a obj) list \<Rightarrow> addr" where
  "fresh [] = 0"
| "fresh (c # cs) = max (Suc (fst c)) (fresh cs)"

definition alloc :: "'a obj \<Rightarrow> 'a memory \<Rightarrow> addr \<times> 'a memory" where
  "alloc x m = (fresh (cells m), m\<lparr>cells := (fresh (cells m), x) # cells m\<rparr>)"

definition release :: "addr \<Rightarrow> 'a memory \<Rightarrow> 'a memory" where
  "release a m = m\<lparr>cells := filter (\<lambda>c. fst c \<noteq> a) (cells m)\<rparr>"

definition overwrite :: "addr \<Rightarrow> 'a obj \<Rightarrow> 'a memory \<Rightarrow> 'a memory" where
  "overwrite a x m = m\<lparr>cells := map (\<lambda>c. if fst c = a then (a, x) else c) (cells m)\<rparr>"

definition log :: "event \<Rightarrow> 'a memory \<Rightarrow> 'a memory" where
  "log e m = m\<lparr>trace := trace m @ [e]\<rparr>"

fun is_native :: "'a obj \<Rightarrow> bool" where
  "is_native (NumericMatrix _ _ _) = False"
| "is_native (NumericVector _) = False"
| "is_native (gsl_matrix _ _ _) = True"
| "is_native (gsl_vector _) = True"
| "is_native (gsl_eigen_symm_workspace _) = True"

text \<open>The library-native objects that are live, and the objects the caller can see.\<close>

definition native_objects :: "'a memory \<Rightarrow> (addr \<times> 'a obj) list" where
  "native_objects m = filter (\<lambda>c. is_native (snd c)) (cells m)"

definition R_objects :: "'a memory \<Rightarrow> (addr \<times> 'a obj) list" where
  "R_objects m = filter (\<lambda>c. \<not> is_native (snd c)) (cells m)"

subsection \<open>The library primitives\<close>

text \<open>
  Modelled from the spec: the primitives of section 6 (a matrix buffer built from the
  caller's matrix, a vector buffer of a given length, a workspace keyed by the problem
  dimension, each with an explicit release), which live in RcppGSL and the GSL and are
  not in the repository. Allocation always succeeds here.

  \<^verbatim>\<open>RcppGSL::matrix<double> M(sM)\<close> (line 30): a new GSL matrix with the dimensions and
  the elements of the R matrix.
\<close>

definition RcppGSL_matrix :: "addr \<Rightarrow> 'a memory \<Rightarrow> (failure + addr) \<times> 'a memory" where
  "RcppGSL_matrix sM m =
     (case map_of (cells m) sM of
        Some (NumericMatrix nr nc rows) \<Rightarrow>
          (let (M, m') = alloc (gsl_matrix nr nc rows) m
           in (Inr M, log (MatrixImport sM M) m'))
      | _ \<Rightarrow> (Inl not_compatible, m))"

text \<open>\<^verbatim>\<open>M.ncol()\<close> (line 31): the second dimension of the GSL matrix.\<close>

definition ncol :: "addr \<Rightarrow> 'a memory \<Rightarrow> failure + nat" where
  "ncol M m =
     (case map_of (cells m) M of
        Some (gsl_matrix n1 n2 rows) \<Rightarrow> Inr n2
      | _ \<Rightarrow> Inl Fault)"

text \<open>\<^verbatim>\<open>RcppGSL::vector<double> ev(k)\<close> (line 33): \<open>k\<close> elements, not initialised.\<close>

definition RcppGSL_vector :: "nat \<Rightarrow> 'a memory \<Rightarrow> addr \<times> 'a memory" where
  "RcppGSL_vector k m =
     (let (ev, m') = alloc (gsl_vector (map (uninit m) [0..<k])) m
      in (ev, log (VectorAlloc ev k) m'))"

text \<open>\<^verbatim>\<open>gsl_eigen_symm_alloc(k)\<close> (line 34).\<close>

definition gsl_eigen_symm_alloc :: "nat \<Rightarrow> 'a memory \<Rightarrow> addr \<times> 'a memory" where
  "gsl_eigen_symm_alloc k m =
     (let (w, m') = alloc (gsl_eigen_symm_workspace k) m
      in (w, log (SymmAlloc w k) m'))"

text \<open>
  The external routine is a parameter. It is given the staged matrix (dimensions and
  rows), the length of the output vector and the size of the workspace. It either
  fails with an error code \<open>e\<close> and writes nothing, or yields the eigenvalue for each
  index of the output vector and the rows it leaves in the matrix buffer, which it uses
  as scratch space.

  Modelled from the spec: on success the routine overwrites the whole output buffer
  (section 4.1, step 3).
\<close>

type_synonym ('a, 'e) eigen_routine =
  "nat \<Rightarrow> nat \<Rightarrow> 'a list list \<Rightarrow> nat \<Rightarrow> nat \<Rightarrow> 'e + ((nat \<Rightarrow> 'a) \<times> 'a list list)"

text \<open>
  \<^verbatim>\<open>gsl_eigen_symm (M, ev, w)\<close> (line 35): runs the routine on the three objects and
  returns its status, \<open>None\<close> for success and \<open>Some e\<close> for the error code \<open>e\<close>. A
  failing routine leaves the output vector as it found it. (Under the default error
  handler of the GSL a failure ends the process instead; that run never comes back to
  the caller and has no place in the model.)
\<close>

definition gsl_eigen_symm ::
  "('a, 'e) eigen_routine \<Rightarrow> addr \<Rightarrow> addr \<Rightarrow> addr \<Rightarrow> 'a memory \<Rightarrow> (failure + 'e option) \<times> 'a memory" where
  "gsl_eigen_symm routine M ev w m =
     (case map_of (cells m) M of
        Some (gsl_matrix n1 n2 rows) \<Rightarrow>
          (case map_of (cells m) ev of
             Some (gsl_vector xs) \<Rightarrow>
               (case map_of (cells m) w of
                  Some (gsl_eigen_symm_workspace n) \<Rightarrow>
                    (case routine n1 n2 rows (length xs) n of
                       Inl e \<Rightarrow> (Inr (Some e), log (EigenSymm M ev w) m)
                     | Inr (eval, rows') \<Rightarrow>
                         (Inr None,
                          overwrite ev (gsl_vector (map eval [0..<length xs]))
                            (overwrite M (gsl_matrix n1 n2 rows')
                               (log (EigenSymm M ev w) m))))
                | _ \<Rightarrow> (Inl Fault, m))
           | _ \<Rightarrow> (Inl Fault, m))
      | _ \<Rightarrow> (Inl Fault, m))"

text \<open>\<^verbatim>\<open>gsl_eigen_symm_free (w)\<close> (line 36).\<close>

definition gsl_eigen_symm_free :: "addr \<Rightarrow> 'a memory \<Rightarrow> 'a memory" where
  "gsl_eigen_symm_free w m = log (SymmFree w) (release w m)"

text \<open>
  \<^verbatim>\<open>Rcpp::NumericVector res(Rcpp::wrap(ev))\<close> (line 40): a new R vector with the
  elements of the GSL vector.
\<close>

definition wrap :: "addr \<Rightarrow> 'a memory \<Rightarrow> (failure + addr) \<times> 'a memory" where
  "wrap ev m =
     (case map_of (cells m) ev of
        Some (gsl_vector xs) \<Rightarrow>
          (let (res, m') = alloc (NumericVector xs) m
           in (Inr res, log (Wrap ev res) m'))
      | _ \<Rightarrow> (Inl Fault, m))"

text \<open>\<^verbatim>\<open>M.free()\<close> and \<^verbatim>\<open>ev.free()\<close> (lines 42 and 43).\<close>

definition matrix_free :: "addr \<Rightarrow> 'a memory \<Rightarrow> 'a memory" where
  "matrix_free M m = log (MatrixFree M) (release M m)"

definition vector_free :: "addr \<Rightarrow> 'a memory \<Rightarrow> 'a memory" where
  "vector_free ev m = log (VectorFree ev) (release ev m)"

subsection \<open>The bridge\<close>

text \<open>
  Lines 28 to 46, statement by statement. \<open>sM\<close> is the handle of the caller's matrix.
  Line 35 is an expression statement: the status of \<^verbatim>\<open>gsl_eigen_symm\<close> is dropped and
  lines 36 to 45 run whatever it was. The function returns early only when the
  constructor of line 30 rejects the handle; the \<open>Fault\<close> branches stand for undefined
  behaviour and are never taken (\<open>getEigenValues_never_faults\<close>). \<open>k\<close> is an
  \<^verbatim>\<open>int\<close> in the source; the dimensions of an R matrix fit it.
\<close>

definition getEigenValues ::
  "('a, 'e) eigen_routine \<Rightarrow> addr \<Rightarrow> 'a memory \<Rightarrow> (failure + addr) \<times> 'a memory" where
  "getEigenValues routine sM m0 =
     (case RcppGSL_matrix sM m0 of
        (Inl e, m1) \<Rightarrow> (Inl e, m1)
      | (Inr M, m1) \<Rightarrow>
     (case ncol M m1 of
        Inl e \<Rightarrow> (Inl e, m1)
      | Inr k \<Rightarrow>
     (let (ev, m2) = RcppGSL_vector k m1;
          (w, m3) = gsl_eigen_symm_alloc k m2
      in
     (case gsl_eigen_symm routine M ev w m3 of
        (Inl e, m4) \<Rightarrow> (Inl e, m4)
      | (Inr status, m4) \<Rightarrow>
     (let m5 = gsl_eigen_symm_free w m4
      in
     (case wrap ev m5 of
        (Inl e, m6) \<Rightarrow> (Inl e, m6)
      | (Inr res, m6) \<Rightarrow>
     (let m7 = matrix_free M m6;
          m8 = vector_free ev m7
      in (Inr res, m8))))))))"

text \<open>What the caller receives: the failure, or the elements of the returned R vector.\<close>

definition returned :: "(failure + addr) \<times> 'a memory \<Rightarrow> failure + 'a list" where
  "returned r =
     (case fst r of
        Inl e \<Rightarrow> Inl e
      | Inr res \<Rightarrow>
          (case map_of (cells (snd r)) res of
             Some (NumericVector xs) \<Rightarrow> Inr xs
           | _ \<Rightarrow> Inl Fault))"

subsection \<open>Input shapes and a sample routine\<close>

text \<open>A matrix with \<open>nr\<close> rows of \<open>nc\<close> elements each, and a symmetric one.\<close>

definition well_formed :: "nat \<Rightarrow> nat \<Rightarrow> 'a list list \<Rightarrow> bool" where
  "well_formed nr nc rows \<longleftrightarrow> length rows = nr \<and> list_all (\<lambda>r. length r = nc) rows"

definition symmetric :: "nat \<Rightarrow> 'a list list \<Rightarrow> bool" where
  "symmetric k rows \<longleftrightarrow>
     list_all (\<lambda>i. list_all (\<lambda>j. rows ! i ! j = rows ! j ! i) [0..<k]) [0..<k]"

text \<open>
  A sample routine for the concrete runs below: it fails on a matrix that is not square
  or does not match the vector and the workspace, and otherwise yields the diagonal,
  which holds the eigenvalues of a diagonal matrix.
\<close>

datatype gsl_errno = GSL_ENOTSQR | GSL_EBADLEN

definition diagonal_routine :: "('a, gsl_errno) eigen_routine" where
  "diagonal_routine n1 n2 rows len n =
     (if n1 \<noteq> n2 then Inl GSL_ENOTSQR
      else if len \<noteq> n1 then Inl GSL_EBADLEN
      else if n \<noteq> n1 then Inl GSL_EBADLEN
      else Inr (\<lambda>i. rows ! i ! i, rows))"

text \<open>
  Modelled from the spec: on success the external routine "fully overwrites the output
  buffer with k eigenvalues" (section 4.1, step 3); its code is not in the repository.
  With \<^verbatim>\<open>double\<close> read as \<open>real\<close>, \<open>x\<close> is an eigenvalue of the matrix when some
  nonzero vector is scaled by \<open>x\<close>, and the routine meets its contract when the values it
  writes are exactly the eigenvalues.
\<close>

definition mat_vec :: "real list list \<Rightarrow> real list \<Rightarrow> real list" where
  "mat_vec rows v = map (\<lambda>r. sum_list (map2 (*) r v)) rows"

definition is_eigenvalue :: "nat \<Rightarrow> real list list \<Rightarrow> real \<Rightarrow> bool" where
  "is_eigenvalue n rows x \<longleftrightarrow>
     (\<exists>v. length v = n \<and> (\<exists>y \<in> set v. y \<noteq> 0) \<and> mat_vec rows v = map ((*) x) v)"

definition writes_eigenvalues :: "nat \<Rightarrow> real list list \<Rightarrow> (nat \<Rightarrow> real) \<Rightarrow> bool" where
  "writes_eigenvalues n rows eval \<longleftrightarrow>
     (\<forall>i < n. is_eigenvalue n rows (eval i)) \<and>
     (\<forall>x. is_eigenvalue n rows x \<longrightarrow> (\<exists>i < n. eval i = x))"

text \<open>A memory for the concrete runs: the caller's matrix at address 0, nothing else.\<close>

definition caller_memory :: "nat \<Rightarrow> nat \<Rightarrow> real list list \<Rightarrow> real memory" where
  "caller_memory nr nc rows =
     \<lparr>cells = [(0, NumericMatrix nr nc rows)], uninit = (\<lambda>i. 0), trace = []\<rparr>"


section \<open>Properties\<close>

subsection \<open>Fresh addresses\<close>

lemma fresh_greater: "c \<in> set cs \<Longrightarrow> fst c < fresh cs"
  by (induction cs) auto

lemma map_of_fresh: "fresh cs \<le> a \<Longrightarrow> map_of cs a = None"
proof -
  assume h: "fresh cs \<le> a"
  have "a \<notin> fst ` set cs"
  proof
    assume "a \<in> fst ` set cs"
    then obtain c where "c \<in> set cs" "fst c = a" by auto
    with fresh_greater [of c cs] h show False by simp
  qed
  then show ?thesis by (simp add: map_of_eq_None_iff)
qed

lemma filter_fresh: "fresh cs \<le> a \<Longrightarrow> filter (\<lambda>c. fst c \<noteq> a) cs = cs"
proof -
  assume h: "fresh cs \<le> a"
  have "\<forall>c \<in> set cs. fst c \<noteq> a"
  proof
    fix c assume "c \<in> set cs"
    with fresh_greater [of c cs] h show "fst c \<noteq> a" by auto
  qed
  then show ?thesis by (simp add: filter_id_conv)
qed

lemma map_fresh:
  "fresh cs \<le> a \<Longrightarrow> map (\<lambda>c. if fst c = a then (a, x) else c) cs = cs"
proof -
  assume h: "fresh cs \<le> a"
  have "\<forall>c \<in> set cs. fst c \<noteq> a"
  proof
    fix c assume "c \<in> set cs"
    with fresh_greater [of c cs] h show "fst c \<noteq> a" by auto
  qed
  then show ?thesis by (simp add: map_idI)
qed

lemma present_below_fresh: "map_of cs a = Some x \<Longrightarrow> a < fresh cs"
proof -
  assume "map_of cs a = Some x"
  then have "(a, x) \<in> set cs" by (rule map_of_SomeD)
  from fresh_greater [OF this] show ?thesis by simp
qed


subsection \<open>The three ways through the function\<close>

text \<open>
  The handle does not name a numeric matrix: the constructor of line 30 fails and
  nothing has been allocated.
\<close>

lemma getEigenValues_not_compatible:
  assumes "\<And>nr nc rows. map_of (cells m) sM \<noteq> Some (NumericMatrix nr nc rows)"
  shows "getEigenValues routine sM m = (Inl not_compatible, m)"
  using assms
  by (simp add: getEigenValues_def RcppGSL_matrix_def split: option.splits obj.splits)

text \<open>
  The external routine fails: its status is dropped, all lines run, and the new R vector
  holds what the output buffer held when it was allocated.
\<close>

lemma getEigenValues_failed:
  assumes "map_of (cells m) sM = Some (NumericMatrix nr nc rows)"
    and "routine nr nc rows nc nc = Inl e"
  shows "getEigenValues routine sM m =
     (Inr (Suc (Suc (fresh (cells m)))),
      m\<lparr>cells :=
           (Suc (Suc (fresh (cells m))), NumericVector (map (uninit m) [0..<nc])) # cells m,
         trace := trace m @
           [MatrixImport sM (fresh (cells m)),
            VectorAlloc (Suc (fresh (cells m))) nc,
            SymmAlloc (Suc (Suc (fresh (cells m)))) nc,
            EigenSymm (fresh (cells m)) (Suc (fresh (cells m))) (Suc (Suc (fresh (cells m)))),
            SymmFree (Suc (Suc (fresh (cells m)))),
            Wrap (Suc (fresh (cells m))) (Suc (Suc (fresh (cells m)))),
            MatrixFree (fresh (cells m)),
            VectorFree (Suc (fresh (cells m)))]\<rparr>)"
  using assms
  by (simp add: getEigenValues_def RcppGSL_matrix_def ncol_def RcppGSL_vector_def
      gsl_eigen_symm_alloc_def gsl_eigen_symm_def alloc_def log_def map_of_fresh
      gsl_eigen_symm_free_def wrap_def matrix_free_def vector_free_def release_def
      filter_fresh del: filter_filter)

text \<open>
  The external routine returns: all lines run, and the memory ends as it began but for
  the new R vector, which takes the address the workspace had.
\<close>

lemma getEigenValues_done:
  assumes "map_of (cells m) sM = Some (NumericMatrix nr nc rows)"
    and "routine nr nc rows nc nc = Inr (eval, rows')"
  shows "getEigenValues routine sM m =
     (Inr (Suc (Suc (fresh (cells m)))),
      m\<lparr>cells :=
           (Suc (Suc (fresh (cells m))), NumericVector (map eval [0..<nc])) # cells m,
         trace := trace m @
           [MatrixImport sM (fresh (cells m)),
            VectorAlloc (Suc (fresh (cells m))) nc,
            SymmAlloc (Suc (Suc (fresh (cells m)))) nc,
            EigenSymm (fresh (cells m)) (Suc (fresh (cells m))) (Suc (Suc (fresh (cells m)))),
            SymmFree (Suc (Suc (fresh (cells m)))),
            Wrap (Suc (fresh (cells m))) (Suc (Suc (fresh (cells m)))),
            MatrixFree (fresh (cells m)),
            VectorFree (Suc (fresh (cells m)))]\<rparr>)"
  using assms
  by (simp add: getEigenValues_def RcppGSL_matrix_def ncol_def RcppGSL_vector_def
      gsl_eigen_symm_alloc_def gsl_eigen_symm_def alloc_def log_def map_of_fresh
      gsl_eigen_symm_free_def wrap_def matrix_free_def vector_free_def release_def
      overwrite_def filter_fresh map_fresh del: filter_filter)

lemma returned_done:
  assumes "map_of (cells m) sM = Some (NumericMatrix nr nc rows)"
    and "routine nr nc rows nc nc = Inr (eval, rows')"
  shows "returned (getEigenValues routine sM m) = Inr (map eval [0..<nc])"
  by (simp add: returned_def getEigenValues_done [where routine = routine, OF assms])

lemma returned_failed:
  assumes "map_of (cells m) sM = Some (NumericMatrix nr nc rows)"
    and "routine nr nc rows nc nc = Inl e"
  shows "returned (getEigenValues routine sM m) = Inr (map (uninit m) [0..<nc])"
  by (simp add: returned_def getEigenValues_failed [where routine = routine, OF assms])

lemma returned_not_compatible:
  assumes "\<And>nr nc rows. map_of (cells m) sM \<noteq> Some (NumericMatrix nr nc rows)"
  shows "returned (getEigenValues routine sM m) = Inl not_compatible"
  by (simp add: returned_def getEigenValues_not_compatible [OF assms])

lemma input_cases:
  obtains (matrix) nr nc rows where "map_of cs sM = Some (NumericMatrix nr nc rows)"
  | (other) "\<And>nr nc rows. map_of cs sM \<noteq> Some (NumericMatrix nr nc rows)"
  by blast

lemma routine_cases:
  fixes r :: "'e + ((nat \<Rightarrow> 'a) \<times> 'a list list)"
  obtains (failed) e where "r = Inl e"
  | (finished) eval rows' where "r = Inr (eval, rows')"
  by (cases r) auto

text \<open>
  What the caller receives is a function of the matrix behind the handle and, when the
  routine fails, of the contents of uninitialised memory.
\<close>

lemma returned_depends_on_input:
  "returned (getEigenValues routine sM m) =
     (case map_of (cells m) sM of
        Some (NumericMatrix nr nc rows) \<Rightarrow>
          (case routine nr nc rows nc nc of
             Inl e \<Rightarrow> Inr (map (uninit m) [0..<nc])
           | Inr (eval, rows') \<Rightarrow> Inr (map eval [0..<nc]))
      | _ \<Rightarrow> Inl not_compatible)"
proof (cases rule: input_cases [of "cells m" sM])
  case (matrix nr nc rows)
  show ?thesis
  proof (cases rule: routine_cases [of "routine nr nc rows nc nc"])
    case (failed e)
    with matrix returned_failed [where routine = routine, OF matrix failed]
    show ?thesis by simp
  next
    case (finished eval rows')
    with matrix returned_done [where routine = routine, OF matrix finished]
    show ?thesis by simp
  qed
next
  case other
  from returned_not_compatible [of m sM routine, OF other] other show ?thesis
    by (simp split: option.splits obj.splits)
qed

text \<open>
  The handles the function passes on always name live objects of the expected kind: no
  call ends in \<open>Fault\<close>.
\<close>

lemma getEigenValues_never_faults: "returned (getEigenValues routine sM m) \<noteq> Inl Fault"
  by (simp add: returned_depends_on_input split: option.splits obj.splits sum.splits)


subsection \<open>Facts about the concrete runs\<close>

lemma fresh_caller_memory: "fresh (cells (caller_memory nr nc rows)) = Suc 0"
  by (simp add: caller_memory_def)

lemma input_caller_memory:
  "map_of (cells (caller_memory nr nc rows)) 0 = Some (NumericMatrix nr nc rows)"
  by (simp add: caller_memory_def)

lemma diagonal_routine_2x2:
  "diagonal_routine 2 2 rows 2 2 = Inr (\<lambda>i. rows ! i ! i, rows)"
  by (simp add: diagonal_routine_def)

lemma diagonal_routine_1x1:
  "diagonal_routine 1 1 rows 1 1 = Inr (\<lambda>i. rows ! i ! i, rows)"
  by (simp add: diagonal_routine_def)

lemma diagonal_routine_2x3: "diagonal_routine 2 3 rows 3 3 = Inl GSL_ENOTSQR"
  by (simp add: diagonal_routine_def)


lemma upt_2: "[0..<2] = [0, Suc 0]"
  by (simp add: upt_rec)

lemma upt_3: "[0..<3] = [0, Suc 0, Suc (Suc 0)]"
  by (simp add: upt_rec)


subsection \<open>Length of the result\<close>

text \<open>
  Claim C1. For every symmetric \<open>k \<times> k\<close> input matrix with \<open>k \<ge> 1\<close>, the bridge
  returns a sequence of exactly \<open>k\<close> values. The external routine is a parameter, so the
  statement is for a call on which it returns: then the bridge returns too, and what it
  returns has \<open>k\<close> elements.
\<close>

theorem getEigenValues_returns_k_values:
  assumes "map_of (cells m) sM = Some (NumericMatrix k k rows)"
    and "1 \<le> k" and "well_formed k k rows" and "symmetric k rows"
    and "routine k k rows k k = Inr (eval, rows')"
  shows "\<exists>xs. returned (getEigenValues routine sM m) = Inr xs \<and> length xs = k"
  using returned_done [where routine = routine, OF assms(1) assms(5)] by simp

theorem getEigenValues_returns_k_values_witness:
  "map_of (cells (caller_memory 2 2 [[2, 0], [0, 3]])) 0 =
     Some (NumericMatrix 2 2 [[2, 0], [0, 3]]) \<and>
   (1::nat) \<le> 2 \<and>
   well_formed 2 2 [[2, 0], [0, 3::real]] \<and>
   symmetric 2 [[2, 0], [0, 3::real]] \<and>
   (\<exists>xs. returned (getEigenValues diagonal_routine 0 (caller_memory 2 2 [[2, 0], [0, 3]])) = Inr xs \<and>
      length xs = 2)"
proof -
  have h2: "(1::nat) \<le> 2" by simp
  have h3: "well_formed 2 2 [[2, 0], [0, 3::real]]" by (simp add: well_formed_def)
  have h4: "symmetric 2 [[2, 0], [0, 3::real]]" by (simp add: symmetric_def upt_2)
  from getEigenValues_returns_k_values [where routine = diagonal_routine,
      OF input_caller_memory h2 h3 h4 diagonal_routine_2x2]
    input_caller_memory h2 h3 h4
  show ?thesis by blast
qed

text \<open>
  Claim C10. For every input matrix, square or not, the dimension \<open>k\<close> is the column
  count: the vector and the workspace are allocated with it and the routine is invoked on
  the staged matrix as it is, whatever its shape or its elements. Nothing is checked
  before the invocation, and the returned sequence has as many elements as the matrix
  has columns.
\<close>

theorem dimension_is_column_count:
  assumes "map_of (cells m) sM = Some (NumericMatrix nr nc rows)"
  shows "(\<exists>M ev w rest. trace (snd (getEigenValues routine sM m)) =
            trace m @ [MatrixImport sM M, VectorAlloc ev nc, SymmAlloc w nc, EigenSymm M ev w] @ rest) \<and>
         returned (getEigenValues routine sM m) =
           (case routine nr nc rows nc nc of
              Inl e \<Rightarrow> Inr (map (uninit m) [0..<nc])
            | Inr (eval, rows') \<Rightarrow> Inr (map eval [0..<nc])) \<and>
         (\<forall>xs. returned (getEigenValues routine sM m) = Inr xs \<longrightarrow> length xs = nc) \<and>
         (\<exists>xs. returned (getEigenValues routine sM m) = Inr xs \<and> length xs = nc)"
proof (cases rule: routine_cases [of "routine nr nc rows nc nc"])
  case (failed e)
  have "\<exists>M ev w rest. trace (snd (getEigenValues routine sM m)) =
      trace m @ [MatrixImport sM M, VectorAlloc ev nc, SymmAlloc w nc, EigenSymm M ev w] @ rest"
    by (simp add: getEigenValues_failed [where routine = routine, OF assms failed])
  with failed returned_failed [where routine = routine, OF assms failed]
  show ?thesis by auto
next
  case (finished eval rows')
  have "\<exists>M ev w rest. trace (snd (getEigenValues routine sM m)) =
      trace m @ [MatrixImport sM M, VectorAlloc ev nc, SymmAlloc w nc, EigenSymm M ev w] @ rest"
    by (simp add: getEigenValues_done [where routine = routine, OF assms finished])
  with finished returned_done [where routine = routine, OF assms finished]
  show ?thesis by auto
qed

theorem dimension_is_column_count_witness:
  "map_of (cells (caller_memory 2 3 [[1, 2, 3], [4, 5, 6]])) 0 =
     Some (NumericMatrix 2 3 [[1, 2, 3], [4, 5, 6]]) \<and>
   returned (getEigenValues
       ((\<lambda>n1 n2 rows len n. Inr (\<lambda>i. hd rows ! i, rows)) :: (real, gsl_errno) eigen_routine) 0
       (caller_memory 2 3 [[1, 2, 3], [4, 5, 6]])) =
     (Inr [1, 2, 3] :: failure + real list) \<and>
   (\<exists>xs. returned (getEigenValues diagonal_routine 0 (caller_memory 2 3 [[1, 2, 3], [4, 5, 6]])) =
      Inr xs \<and> length xs = 3)"
proof -
  from dimension_is_column_count [OF input_caller_memory,
      of "(\<lambda>n1 n2 rows len n. Inr (\<lambda>i. hd rows ! i, rows)) :: (real, gsl_errno) eigen_routine"
        2 3 "[[1, 2, 3], [4, 5, 6]]"]
  have first: "returned (getEigenValues
       ((\<lambda>n1 n2 rows len n. Inr (\<lambda>i. hd rows ! i, rows)) :: (real, gsl_errno) eigen_routine) 0
       (caller_memory 2 3 [[1, 2, 3], [4, 5, 6]])) =
     (Inr [1, 2, 3] :: failure + real list)"
    by (simp add: upt_3)
  from dimension_is_column_count [OF input_caller_memory,
      of diagonal_routine 2 3 "[[1, 2, 3], [4, 5, 6]]"]
  have second: "\<exists>xs. returned (getEigenValues diagonal_routine 0
       (caller_memory 2 3 [[1, 2, 3], [4, 5, 6]])) = Inr xs \<and> length xs = 3"
    by blast
  from first second input_caller_memory [of 2 3 "[[1, 2, 3], [4, 5, 6]]"]
  show ?thesis by blast
qed

subsection \<open>The result is a copy of the output buffer\<close>

text \<open>
  Claim C3. The returned sequence is a fresh object of the caller's, holding the \<open>k\<close>
  values the external routine wrote into the output buffer, in the buffer's order: the
  element at index \<open>i\<close> is the value written at index \<open>i\<close>. Its address was not in use
  before the call, and it is still in memory, unchanged, after the library-native
  buffers have been released: the memory at return is the memory before the call plus
  this one vector.
\<close>

theorem result_is_fresh_copy:
  assumes "map_of (cells m) sM = Some (NumericMatrix nr nc rows)"
    and "routine nr nc rows nc nc = Inr (eval, rows')"
  shows "\<exists>res. fst (getEigenValues routine sM m) = Inr res \<and>
           res \<notin> fst ` set (cells m) \<and>
           cells (snd (getEigenValues routine sM m)) =
             (res, NumericVector (map eval [0..<nc])) # cells m \<and>
           native_objects (snd (getEigenValues routine sM m)) = native_objects m \<and>
           returned (getEigenValues routine sM m) = Inr (map eval [0..<nc])"
proof -
  have "Suc (Suc (fresh (cells m))) \<notin> fst ` set (cells m)"
  proof
    assume "Suc (Suc (fresh (cells m))) \<in> fst ` set (cells m)"
    then obtain c where "c \<in> set (cells m)" "fst c = Suc (Suc (fresh (cells m)))" by auto
    with fresh_greater [of c "cells m"] show False by simp
  qed
  then show ?thesis
    by (simp add: getEigenValues_done [where routine = routine, OF assms]
        native_objects_def returned_def)
qed

theorem result_is_fresh_copy_witness:
  "\<exists>res. fst (getEigenValues diagonal_routine 0 (caller_memory 2 2 [[3, 0], [0, 2]])) = Inr res \<and>
     res \<notin> fst ` set (cells (caller_memory 2 2 [[3, 0], [0, 2]])) \<and>
     cells (snd (getEigenValues diagonal_routine 0 (caller_memory 2 2 [[3, 0], [0, 2]]))) =
       (res, NumericVector [3, 2]) # cells (caller_memory 2 2 [[3, 0], [0, 2]]) \<and>
     native_objects (snd (getEigenValues diagonal_routine 0 (caller_memory 2 2 [[3, 0], [0, 2]]))) =
       native_objects (caller_memory 2 2 [[3, 0], [0, 2]]) \<and>
     returned (getEigenValues diagonal_routine 0 (caller_memory 2 2 [[3, 0], [0, 2]])) = Inr [3, 2]"
  using result_is_fresh_copy [where routine = diagonal_routine,
      OF input_caller_memory diagonal_routine_2x2, of "[[3, 0], [0, 2]]"]
  by (simp add: upt_2)

subsection \<open>Effects on the caller\<close>

text \<open>
  Claim C4. A call leaves the caller's input matrix as it was and has no effect the
  caller can observe but the returned sequence: on every path the object behind the
  handle \<open>sM\<close> is unchanged, the objects of the calling environment are those from
  before the call, with the returned vector added when the call returns one, and the
  call leaves nothing else behind (\<open>getEigenValues_runs_all_lines\<close>).
\<close>

theorem caller_sees_only_result:
  "map_of (cells (snd (getEigenValues routine sM m))) sM = map_of (cells m) sM \<and>
   uninit (snd (getEigenValues routine sM m)) = uninit m \<and>
   (case fst (getEigenValues routine sM m) of
      Inl e \<Rightarrow> R_objects (snd (getEigenValues routine sM m)) = R_objects m
    | Inr res \<Rightarrow>
        \<exists>xs. R_objects (snd (getEigenValues routine sM m)) = (res, NumericVector xs) # R_objects m \<and>
             returned (getEigenValues routine sM m) = Inr xs)"
proof (cases rule: input_cases [of "cells m" sM])
  case (matrix nr nc rows)
  from present_below_fresh [OF matrix]
  have below: "sM \<noteq> fresh (cells m)" "sM \<noteq> Suc (fresh (cells m))"
    "sM \<noteq> Suc (Suc (fresh (cells m)))" by simp_all
  show ?thesis
  proof (cases rule: routine_cases [of "routine nr nc rows nc nc"])
    case (failed e)
    show ?thesis
      using below
      by (simp add: getEigenValues_failed [where routine = routine, OF matrix failed]
          R_objects_def returned_def)
  next
    case (finished eval rows')
    show ?thesis
      using below
      by (simp add: getEigenValues_done [where routine = routine, OF matrix finished]
          R_objects_def returned_def)
  qed
next
  case other
  show ?thesis
    by (simp add: getEigenValues_not_compatible [where routine = routine, OF other])
qed

theorem caller_sees_only_result_witness:
  "map_of (cells (snd (getEigenValues diagonal_routine 0 (caller_memory 2 2 [[2, 0], [0, 3]])))) 0 =
     Some (NumericMatrix 2 2 [[2, 0], [0, 3]]) \<and>
   R_objects (snd (getEigenValues diagonal_routine 0 (caller_memory 2 2 [[2, 0], [0, 3]]))) =
     [(3, NumericVector [2, 3]), (0, NumericMatrix 2 2 [[2, 0], [0, 3]])]"
  using caller_sees_only_result [of diagonal_routine 0 "caller_memory 2 2 [[2, 0], [0, 3]]"]
  unfolding getEigenValues_done [where routine = diagonal_routine,
      OF input_caller_memory diagonal_routine_2x2]
  by (simp add: fresh_caller_memory upt_2 R_objects_def eval_nat_numeral caller_memory_def)

subsection \<open>Determinism\<close>




subsection \<open>Failures of the external routine\<close>

text \<open>
  Claim C8 says that every failure of the external library reaches the caller as
  reported, that the failing call aborts the operation and that no partial result is
  returned. The bridge has no \<^verbatim>\<open>try\<close> block, but it also drops the status of line
  35. On the 2 by 3 matrix the sample routine fails with \<^verbatim>\<open>GSL_ENOTSQR\<close>, and the
  call returns the three elements of the output buffer, which nothing has written.
\<close>

theorem failure_is_not_reported:
  "diagonal_routine 2 3 [[1, 2, 3], [4, 5, 6]] 3 3 = (Inl GSL_ENOTSQR :: gsl_errno + ((nat \<Rightarrow> real) \<times> real list list)) \<and>
   returned (getEigenValues diagonal_routine 0 (caller_memory 2 3 [[1, 2, 3], [4, 5, 6]])) = Inr [0, 0, 0] \<and>
   trace (snd (getEigenValues diagonal_routine 0 (caller_memory 2 3 [[1, 2, 3], [4, 5, 6]]))) =
     [MatrixImport 0 1, VectorAlloc 2 3, SymmAlloc 3 3, EigenSymm 1 2 3,
      SymmFree 3, Wrap 2 3, MatrixFree 1, VectorFree 2]"
proof -
  have "returned (getEigenValues diagonal_routine 0 (caller_memory 2 3 [[1, 2, 3], [4, 5, 6]])) =
      Inr [0, 0, 0]"
    by (simp add: returned_failed [where routine = diagonal_routine,
          OF input_caller_memory diagonal_routine_2x3] upt_3)
      (simp add: caller_memory_def)
  moreover
  have "trace (snd (getEigenValues diagonal_routine 0 (caller_memory 2 3 [[1, 2, 3], [4, 5, 6]]))) =
     [MatrixImport 0 1, VectorAlloc 2 3, SymmAlloc 3 3, EigenSymm 1 2 3,
      SymmFree 3, Wrap 2 3, MatrixFree 1, VectorFree 2]"
    unfolding getEigenValues_failed [where routine = diagonal_routine,
        OF input_caller_memory diagonal_routine_2x3]
    by (simp add: fresh_caller_memory eval_nat_numeral caller_memory_def)
  ultimately show ?thesis
    using diagonal_routine_2x3 [of "[[1, 2, 3], [4, 5, 6::real]]"] by blast
qed

text \<open>
  Claim C8, amended. The bridge does not catch, recover from or translate a failure, and
  it does not look at the status of the external routine: when the routine fails with
  \<open>e\<close>, the call still runs to its end, releases the workspace and the two buffers, and
  returns a sequence of \<open>k\<close> elements, the contents of the output buffer as it was
  allocated. The error \<open>e\<close> does not reach the caller.
\<close>

theorem failure_status_is_dropped:
  assumes "map_of (cells m) sM = Some (NumericMatrix nr nc rows)"
    and "routine nr nc rows nc nc = Inl e"
  shows "returned (getEigenValues routine sM m) = Inr (map (uninit m) [0..<nc]) \<and>
         native_objects (snd (getEigenValues routine sM m)) = native_objects m \<and>
         (\<exists>M ev w res. trace (snd (getEigenValues routine sM m)) =
            trace m @ [MatrixImport sM M, VectorAlloc ev nc, SymmAlloc w nc, EigenSymm M ev w,
              SymmFree w, Wrap ev res, MatrixFree M, VectorFree ev])"
  by (simp add: getEigenValues_failed [where routine = routine, OF assms]
      native_objects_def returned_def)

theorem failure_status_is_dropped_witness:
  "map_of (cells (caller_memory 2 3 [[1, 2, 3], [4, 5, 6]])) 0 = Some (NumericMatrix 2 3 [[1, 2, 3], [4, 5, 6]]) \<and>
   diagonal_routine 2 3 [[1, 2, 3], [4, 5, 6]] 3 3 = (Inl GSL_ENOTSQR :: gsl_errno + ((nat \<Rightarrow> real) \<times> real list list)) \<and>
   returned (getEigenValues diagonal_routine 0 (caller_memory 2 3 [[1, 2, 3], [4, 5, 6]])) = Inr [0, 0, 0] \<and>
   native_objects (snd (getEigenValues diagonal_routine 0 (caller_memory 2 3 [[1, 2, 3], [4, 5, 6]]))) =
     native_objects (caller_memory 2 3 [[1, 2, 3], [4, 5, 6]])"
  using failure_status_is_dropped [where routine = diagonal_routine,
      OF input_caller_memory diagonal_routine_2x3, of "[[1, 2, 3], [4, 5, 6]]"]
    input_caller_memory [of 2 3 "[[1, 2, 3], [4, 5, 6]]"]
    diagonal_routine_2x3 [of "[[1, 2, 3], [4, 5, 6::real]]"]
  by (simp add: upt_3) (simp add: caller_memory_def)

subsection \<open>Release of the library-native resources\<close>





subsection \<open>Two small matrices\<close>

lemma eigenvalue_1x1: "is_eigenvalue 1 [[c]] x \<longleftrightarrow> x = c"
proof
  assume "is_eigenvalue 1 [[c]] x"
  then obtain v where v: "length v = 1" "\<exists>y \<in> set v. y \<noteq> 0"
    "mat_vec [[c]] v = map ((*) x) v"
    unfolding is_eigenvalue_def by blast
  from v(1) obtain y where y: "v = [y]" by (cases v) auto
  with v(2) have "y \<noteq> 0" by simp
  moreover from v(3) y have "c * y = x * y" by (simp add: mat_vec_def)
  ultimately show "x = c" by simp
next
  assume "x = c"
  then have "length [1::real] = 1 \<and> (\<exists>y \<in> set [1::real]. y \<noteq> 0) \<and>
    mat_vec [[c]] [1] = map ((*) x) [1]"
    by (simp add: mat_vec_def)
  then show "is_eigenvalue 1 [[c]] x" unfolding is_eigenvalue_def by blast
qed

lemma eigenvalue_diag_2_3: "is_eigenvalue 2 [[2, 0], [0, 3]] x \<longleftrightarrow> x = 2 \<or> x = 3"
proof
  assume "is_eigenvalue 2 [[2, 0], [0, 3]] x"
  then obtain v where v: "length v = 2" "\<exists>y \<in> set v. y \<noteq> 0"
    "mat_vec [[2, 0], [0, 3]] v = map ((*) x) v"
    unfolding is_eigenvalue_def by blast
  from v(1) obtain a b where ab: "v = [a, b]"
    by (cases v; cases "tl v") auto
  with v(2) have nz: "a \<noteq> 0 \<or> b \<noteq> 0" by auto
  from v(3) ab have "2 * a = x * a" "3 * b = x * b" by (simp_all add: mat_vec_def)
  with nz show "x = 2 \<or> x = 3" by auto
next
  assume "x = 2 \<or> x = 3"
  then show "is_eigenvalue 2 [[2, 0], [0, 3]] x"
  proof
    assume "x = 2"
    then have "length [1::real, 0] = 2 \<and> (\<exists>y \<in> set [1::real, 0]. y \<noteq> 0) \<and>
      mat_vec [[2, 0], [0, 3]] [1, 0] = map ((*) x) [1, 0]"
      by (simp add: mat_vec_def)
    then show ?thesis unfolding is_eigenvalue_def by blast
  next
    assume "x = 3"
    then have "length [0::real, 1] = 2 \<and> (\<exists>y \<in> set [0::real, 1]. y \<noteq> 0) \<and>
      mat_vec [[2, 0], [0, 3]] [0, 1] = map ((*) x) [0, 1]"
      by (simp add: mat_vec_def)
    then show ?thesis unfolding is_eigenvalue_def by blast
  qed
qed

text \<open>The sample routine meets the contract on the two matrices.\<close>

lemma diagonal_routine_contract_1x1: "writes_eigenvalues 1 [[c]] (\<lambda>i. [[c]] ! i ! i)"
  unfolding writes_eigenvalues_def using eigenvalue_1x1 [of c] by simp

lemma diagonal_routine_contract_2x2:
  "writes_eigenvalues 2 [[2, 0], [0, 3]] (\<lambda>i. [[2, 0], [0, 3]] ! i ! i)"
proof -
  have lt2: "\<And>i. i < 2 \<longleftrightarrow> i = 0 \<or> i = Suc 0" by auto
  have "\<forall>i < 2. is_eigenvalue 2 [[2, 0], [0, 3]] ([[2, 0], [0, 3]] ! i ! i)"
    by (auto simp add: lt2 eigenvalue_diag_2_3)
  moreover have "\<forall>x. is_eigenvalue 2 [[2, 0], [0, 3]] x \<longrightarrow>
      (\<exists>i < 2. [[2, 0], [0, 3]] ! i ! i = x)"
  proof (intro allI impI)
    fix x :: real
    assume "is_eigenvalue 2 [[2, 0], [0, 3]] x"
    then have "x = 2 \<or> x = 3" by (simp add: eigenvalue_diag_2_3)
    then show "\<exists>i < 2. [[2, 0], [0, 3]] ! i ! i = x"
    proof
      assume "x = 2"
      then have "(0::nat) < 2 \<and> [[2, 0], [0, 3]] ! 0 ! 0 = x" by simp
      then show ?thesis by blast
    next
      assume "x = 3"
      then have "Suc 0 < 2 \<and> [[2, 0], [0, 3]] ! Suc 0 ! Suc 0 = x" by simp
      then show ?thesis by blast
    qed
  qed
  ultimately show ?thesis unfolding writes_eigenvalues_def by blast
qed

text \<open>
  Claim C6. For the 1 by 1 input matrix \<open>[[c]]\<close> the bridge returns the one-element
  sequence \<open>[c]\<close>. The value is the external routine's: the statement holds for every
  routine that returns on this matrix and writes its eigenvalues.
\<close>

theorem one_by_one_matrix:
  assumes "map_of (cells m) sM = Some (NumericMatrix 1 1 [[c]])"
    and "routine 1 1 [[c]] 1 1 = Inr (eval, rows')"
    and "writes_eigenvalues 1 [[c]] eval"
  shows "returned (getEigenValues routine sM m) = Inr [c]"
proof -
  from assms(3) have "is_eigenvalue 1 [[c]] (eval 0)"
    unfolding writes_eigenvalues_def by simp
  with eigenvalue_1x1 [of c "eval 0"] have "eval 0 = c" by simp
  with returned_done [where routine = routine, OF assms(1) assms(2)]
  show ?thesis by simp
qed

theorem one_by_one_matrix_witness:
  "map_of (cells (caller_memory 1 1 [[5]])) 0 = Some (NumericMatrix 1 1 [[5]]) \<and>
   diagonal_routine 1 1 [[5::real]] 1 1 = Inr (\<lambda>i. [[5]] ! i ! i, [[5]]) \<and>
   writes_eigenvalues 1 [[5]] (\<lambda>i. [[5]] ! i ! i) \<and>
   returned (getEigenValues diagonal_routine 0 (caller_memory 1 1 [[5]])) = Inr [5]"
  using one_by_one_matrix [where routine = diagonal_routine,
      OF input_caller_memory diagonal_routine_1x1 diagonal_routine_contract_1x1, of 5]
    input_caller_memory [of 1 1 "[[5]]"] diagonal_routine_1x1 [of "[[5::real]]"]
    diagonal_routine_contract_1x1 [of 5]
  by simp

text \<open>
  Claim C7. For the 2 by 2 symmetric input matrix \<open>[[2, 0], [0, 3]]\<close> the bridge
  returns a two-element sequence whose set of values is \<open>{2, 3}\<close>, in either order. As
  for C6, the statement holds for every routine that returns on this matrix and writes
  its eigenvalues.
\<close>

theorem diagonal_two_three:
  assumes "map_of (cells m) sM = Some (NumericMatrix 2 2 [[2, 0], [0, 3]])"
    and "routine 2 2 [[2, 0], [0, 3]] 2 2 = Inr (eval, rows')"
    and "writes_eigenvalues 2 [[2, 0], [0, 3]] eval"
  shows "\<exists>xs. returned (getEigenValues routine sM m) = Inr xs \<and>
           length xs = 2 \<and> set xs = {2, 3}"
proof -
  have lt2: "\<And>i. i < 2 \<longleftrightarrow> i = 0 \<or> i = Suc 0" by auto
  from assms(3) have each: "eval 0 = 2 \<or> eval 0 = 3" "eval (Suc 0) = 2 \<or> eval (Suc 0) = 3"
    unfolding writes_eigenvalues_def by (simp_all add: eigenvalue_diag_2_3)
  from assms(3) have "\<exists>i < 2. eval i = 2" "\<exists>i < 2. eval i = 3"
    unfolding writes_eigenvalues_def by (simp_all add: eigenvalue_diag_2_3)
  then have hit: "eval 0 = 2 \<or> eval (Suc 0) = 2" "eval 0 = 3 \<or> eval (Suc 0) = 3"
    by (auto simp add: lt2)
  from each hit have "{eval 0, eval (Suc 0)} = {2, 3}" by auto
  with returned_done [where routine = routine, OF assms(1) assms(2)] upt_2
  show ?thesis by simp
qed

theorem diagonal_two_three_witness:
  "map_of (cells (caller_memory 2 2 [[2, 0], [0, 3]])) 0 =
     Some (NumericMatrix 2 2 [[2, 0], [0, 3]]) \<and>
   diagonal_routine 2 2 [[2, 0], [0, 3::real]] 2 2 =
     Inr (\<lambda>i. [[2, 0], [0, 3]] ! i ! i, [[2, 0], [0, 3]]) \<and>
   writes_eigenvalues 2 [[2, 0], [0, 3]] (\<lambda>i. [[2, 0], [0, 3]] ! i ! i) \<and>
   (\<exists>xs. returned (getEigenValues diagonal_routine 0 (caller_memory 2 2 [[2, 0], [0, 3]])) = Inr xs \<and>
      length xs = 2 \<and> set xs = {2, 3})"
  using diagonal_two_three [where routine = diagonal_routine,
      OF input_caller_memory diagonal_routine_2x2 diagonal_routine_contract_2x2]
    input_caller_memory [of 2 2 "[[2, 0], [0, 3]]"]
    diagonal_routine_2x2 [of "[[2, 0], [0, 3::real]]"]
    diagonal_routine_contract_2x2
  by simp

end
